theory Spec2Isabelle
  imports Complex_Main "HOL-Library.Log_Nat"
begin

section \<open>JavaScript values and the engine\<close>

text \<open>
  The scripts run inside the k6 runtime, a JavaScript engine. A JavaScript value is one
  of the JSON shapes, \<open>undefined\<close>, or a built-in function reached through a
  prototype (\<open>JFun\<close>, known by its name only). An object is the list of its own
  properties in enumeration order (keys distinct). Numbers are binary64 values, written
  as the rationals they denote; strings are lists of characters.
\<close>

type_synonym jsnum = rat

datatype jsval =
    JUndef
  | JNull
  | JBool bool
  | JNum jsnum
  | JStr string
  | JArr "jsval list"
  | JObj "(string \<times> jsval) list"
  | JFun string

datatype proto = ObjectProto | ArrayProto | StringProto | NumberProto | BooleanProto | FunctionProto

text \<open>
  What the engine itself decides, and the repository does not, is a parameter of the
  model: how a number prints, how an object or function is turned into a string (which
  can throw a TypeError, \<open>None\<close>), what a prototype chain holds under a key that is
  not an own property (\<open>JUndef\<close> when nothing), and the comparison operators on
  operands that need a coercion (\<open>None\<close> when the coercion throws).
\<close>

record js_engine =
  number_to_string :: "jsnum \<Rightarrow> string"
  object_to_string :: "jsval \<Rightarrow> string option"
  inherited :: "proto \<Rightarrow> string \<Rightarrow> jsval"
  loose_eq_coerce :: "jsval \<Rightarrow> jsval \<Rightarrow> bool option"
  greater_coerce :: "jsval \<Rightarrow> jsval \<Rightarrow> bool option"
  less_eq_coerce :: "jsval \<Rightarrow> jsval \<Rightarrow> bool option"

subsection \<open>Binary64 arithmetic\<close>

text \<open>
  A numeric literal and the result of an arithmetic operator are rounded to the nearest
  binary64 value, ties to even (normal range; overflow and subnormals do not occur in
  this program, and no division here is by zero).
\<close>

definition round_half_even :: "rat \<Rightarrow> int" where
  "round_half_even q =
     (let f = \<lfloor>q\<rfloor>; d = q - of_int f
      in if d < 1 / 2 then f else if 1 / 2 < d then f + 1 else if even f then f else f + 1)"

definition binade :: "rat \<Rightarrow> int" where
  "binade q =
     (let (a, b) = quotient_of q; e0 = bitlen a - bitlen b
      in if power_int 2 e0 \<le> q then e0 else e0 - 1)"

definition fl :: "rat \<Rightarrow> jsnum" where
  "fl q =
     (if q = 0 then 0
      else let m = \<bar>q\<bar>; u = power_int 2 (binade m - 52)
           in sgn q * of_int (round_half_even (m / u)) * u)"

definition js_mul :: "jsnum \<Rightarrow> jsnum \<Rightarrow> jsnum" where
  "js_mul x y = fl (x * y)"

definition js_add :: "jsnum \<Rightarrow> jsnum \<Rightarrow> jsnum" where
  "js_add x y = fl (x + y)"

definition js_sub :: "jsnum \<Rightarrow> jsnum \<Rightarrow> jsnum" where
  "js_sub x y = fl (x - y)"

definition js_div :: "jsnum \<Rightarrow> jsnum \<Rightarrow> jsnum" where
  "js_div x y = fl (x / y)"

definition Math_ceil :: "jsnum \<Rightarrow> jsnum" where
  "Math_ceil x = of_int \<lceil>x\<rceil>"

definition Math_floor :: "jsnum \<Rightarrow> jsnum" where
  "Math_floor x = of_int \<lfloor>x\<rfloor>"

subsection \<open>Truthiness, typeof, strings\<close>

fun truthy :: "jsval \<Rightarrow> bool" where
  "truthy JUndef = False"
| "truthy JNull = False"
| "truthy (JBool b) = b"
| "truthy (JNum n) = (n \<noteq> 0)"
| "truthy (JStr s) = (s \<noteq> [])"
| "truthy (JArr _) = True"
| "truthy (JObj _) = True"
| "truthy (JFun _) = True"

fun typeof :: "jsval \<Rightarrow> string" where
  "typeof JUndef = ''undefined''"
| "typeof JNull = ''object''"
| "typeof (JBool _) = ''boolean''"
| "typeof (JNum _) = ''number''"
| "typeof (JStr _) = ''string''"
| "typeof (JArr _) = ''object''"
| "typeof (JObj _) = ''object''"
| "typeof (JFun _) = ''function''"

fun isArray :: "jsval \<Rightarrow> bool" where
  "isArray (JArr _) = True"
| "isArray _ = False"

text \<open>\<open>${v}\<close> in a template literal: the string of a value, or a TypeError.\<close>

fun js_to_string :: "js_engine \<Rightarrow> jsval \<Rightarrow> string option" where
  "js_to_string J JUndef = Some ''undefined''"
| "js_to_string J JNull = Some ''null''"
| "js_to_string J (JBool b) = Some (if b then ''true'' else ''false'')"
| "js_to_string J (JNum n) = Some (number_to_string J n)"
| "js_to_string J (JStr s) = Some s"
| "js_to_string J v = object_to_string J v"

text \<open>Decimal digits of a natural number, as the engine prints an array index.\<close>

fun show_nat :: "nat \<Rightarrow> string" where
  "show_nat n =
     (if n < 10 then [''0123456789'' ! n]
      else show_nat (n div 10) @ [''0123456789'' ! (n mod 10)])"

declare show_nat.simps [simp del]

subsection \<open>Property access\<close>

text \<open>
  \<open>d[k]\<close>: a TypeError (\<open>None\<close>) on \<open>null\<close> and \<open>undefined\<close>; otherwise the own
  property, and failing that what the prototype chain holds.
\<close>

definition array_index :: "nat \<Rightarrow> string \<Rightarrow> nat option" where
  "array_index n k =
     (case filter (\<lambda>i. show_nat i = k) [0..<n] of [] \<Rightarrow> None | i # _ \<Rightarrow> Some i)"

fun js_get :: "js_engine \<Rightarrow> jsval \<Rightarrow> string \<Rightarrow> jsval option" where
  "js_get J JUndef k = None"
| "js_get J JNull k = None"
| "js_get J (JObj kvs) k =
     Some (case map_of kvs k of Some v \<Rightarrow> v | None \<Rightarrow> inherited J ObjectProto k)"
| "js_get J (JArr xs) k =
     Some (if k = ''length'' then JNum (of_nat (length xs))
           else case array_index (length xs) k of
                  Some i \<Rightarrow> xs ! i
                | None \<Rightarrow> inherited J ArrayProto k)"
| "js_get J (JStr s) k =
     Some (if k = ''length'' then JNum (of_nat (length s))
           else case array_index (length s) k of
                  Some i \<Rightarrow> JStr [s ! i]
                | None \<Rightarrow> inherited J StringProto k)"
| "js_get J (JNum n) k = Some (inherited J NumberProto k)"
| "js_get J (JBool b) k = Some (inherited J BooleanProto k)"
| "js_get J (JFun f) k = Some (inherited J FunctionProto k)"

text \<open>\<open>d?.k\<close>: \<open>undefined\<close> instead of the TypeError.\<close>

definition js_get_opt :: "js_engine \<Rightarrow> jsval \<Rightarrow> string \<Rightarrow> jsval" where
  "js_get_opt J d k = (case js_get J d k of None \<Rightarrow> JUndef | Some v \<Rightarrow> v)"

text \<open>
  A lookup \<open>TABLE[k]\<close> in an object literal of the configuration, whose own values
  have type \<open>'a\<close>.
\<close>

datatype 'a property = Own 'a | Inherited jsval | Absent

definition table_get :: "js_engine \<Rightarrow> (string \<times> 'a) list \<Rightarrow> string \<Rightarrow> 'a property" where
  "table_get J kvs k =
     (case map_of kvs k of
        Some v \<Rightarrow> Own v
      | None \<Rightarrow> (case inherited J ObjectProto k of JUndef \<Rightarrow> Absent | v \<Rightarrow> Inherited v))"

section \<open>config/env.js\<close>

text \<open>\<open>__ENV\<close>: the environment variables the scripts read, each set or not.\<close>

record env_vars =
  ENV_HOST :: "string option"
  ENV_PROFILE :: "string option"
  ENV_TOKEN_USER :: "string option"
  ENV_TOKEN_ADMIN :: "string option"
  ENV_TOKEN_SUPER_USER :: "string option"

text \<open>\<open>__ENV.X || d\<close>: an unset or empty variable gives the default.\<close>

definition env_or :: "string option \<Rightarrow> string \<Rightarrow> string" where
  "env_or v d = (case v of None \<Rightarrow> d | Some s \<Rightarrow> if s = [] then d else s)"

definition HOSTS :: "(string \<times> string) list" where
  "HOSTS =
     [(''PROD'', ''https://api.example.com''),
      (''DEV'', ''https://api-dev.example.com''),
      (''STAGING'', ''https://api-staging.example.com''),
      (''LOCAL'', ''http://localhost:3000'')]"

definition CURRENT_HOST :: "js_engine \<Rightarrow> env_vars \<Rightarrow> jsval" where
  "CURRENT_HOST J E =
     (case ENV_HOST E of
        None \<Rightarrow> JStr ''https://api-dev.example.com''
      | Some h \<Rightarrow>
          if h = [] then JStr ''https://api-dev.example.com''
          else (case table_get J HOSTS h of
                  Own u \<Rightarrow> JStr u
                | Inherited v \<Rightarrow> if truthy v then v else JStr h
                | Absent \<Rightarrow> JStr h))"

definition TOKENS :: "env_vars \<Rightarrow> (string \<times> string) list" where
  "TOKENS E =
     [(''USER'', env_or (ENV_TOKEN_USER E) ''your-user-token-here''),
      (''ADMIN'', env_or (ENV_TOKEN_ADMIN E) ''your-admin-token-here''),
      (''SUPER_USER'', env_or (ENV_TOKEN_SUPER_USER E) ''your-super-user-token-here'')]"

record load_profile =
  vus :: jsnum
  duration :: string
  description :: string

definition LOAD_PROFILES :: "(string \<times> load_profile) list" where
  "LOAD_PROFILES =
     [(''SMOKE'', \<lparr>vus = 1, duration = ''30s'', description = ''Quick sanity check''\<rparr>),
      (''LIGHT'', \<lparr>vus = 10, duration = ''60s'',
         description = ''Daily CI/CD, quick validation''\<rparr>),
      (''MEDIUM'', \<lparr>vus = 30, duration = ''5m'',
         description = ''Weekly regression, pre-release''\<rparr>),
      (''HEAVY'', \<lparr>vus = 100, duration = ''10m'',
         description = ''Monthly stress testing, capacity planning''\<rparr>)]"

definition DEFAULT_PROFILE :: load_profile where
  "DEFAULT_PROFILE =
     \<lparr>vus = 10, duration = ''60s'', description = ''Daily CI/CD, quick validation''\<rparr>"

text \<open>
  \<open>getProfile\<close>: \<open>LOAD_PROFILES[profileName] || DEFAULT_PROFILE\<close>. A name that the
  prototype chain answers with a truthy value gives that value (\<open>Inl\<close>), which is no
  profile.
\<close>

definition getProfile :: "js_engine \<Rightarrow> env_vars \<Rightarrow> jsval + load_profile" where
  "getProfile J E =
     (let profileName = env_or (ENV_PROFILE E) ''LIGHT''
      in case table_get J LOAD_PROFILES profileName of
           Own p \<Rightarrow> Inr p
         | Inherited v \<Rightarrow> if truthy v then Inl v else Inr DEFAULT_PROFILE
         | Absent \<Rightarrow> Inr DEFAULT_PROFILE)"

section \<open>run-all.js: the weighted scenarios\<close>

record scenario =
  exec :: string
  executor :: string
  scenario_vus :: jsnum
  scenario_duration :: string
  startTime :: string
  tags :: "(string \<times> string) list"

text \<open>\<open>x || 1\<close> on a number: 1 when \<open>x\<close> is 0.\<close>

definition or_one :: "jsnum \<Rightarrow> jsnum" where
  "or_one x = (if x = 0 then 1 else x)"

definition scenarios :: "load_profile \<Rightarrow> (string \<times> scenario) list" where
  "scenarios profile =
     [(''get_list'',
        \<lparr>exec = ''getListScenario'', executor = ''constant-vus'',
         scenario_vus = Math_ceil (js_mul (vus profile) (fl (7 / 10))),
         scenario_duration = duration profile, startTime = ''0s'',
         tags = [(''test_type'', ''get-list''), (''operation'', ''read'')]\<rparr>),
      (''get_details'',
        \<lparr>exec = ''getDetailsScenario'', executor = ''constant-vus'',
         scenario_vus = Math_ceil (js_mul (vus profile) (fl (2 / 10))),
         scenario_duration = duration profile, startTime = ''0s'',
         tags = [(''test_type'', ''get-details''), (''operation'', ''read'')]\<rparr>),
      (''create'',
        \<lparr>exec = ''createScenario'', executor = ''constant-vus'',
         scenario_vus = or_one (Math_ceil (js_mul (vus profile) (fl (1 / 10)))),
         scenario_duration = duration profile, startTime = ''10s'',
         tags = [(''test_type'', ''create''), (''operation'', ''write'')]\<rparr>)]"

text \<open>The VU count a scenario table declares under a name (0 when it has none).\<close>

definition vus_of :: "(string \<times> scenario) list \<Rightarrow> string \<Rightarrow> jsnum" where
  "vus_of scs name = (case map_of scs name of None \<Rightarrow> 0 | Some sc \<Rightarrow> scenario_vus sc)"

definition weighted_total :: "load_profile \<Rightarrow> jsnum" where
  "weighted_total profile =
     vus_of (scenarios profile) ''get_list'' + vus_of (scenarios profile) ''get_details''
       + vus_of (scenarios profile) ''create''"

section \<open>config/slo.js\<close>

record slo =
  p95 :: jsnum
  p99 :: jsnum
  errorRate :: jsnum

type_synonym thresholds = "(string \<times> string list) list"

definition generateThresholds :: "js_engine \<Rightarrow> slo \<Rightarrow> thresholds" where
  "generateThresholds J s =
     [(''http_req_duration'',
        [''p(95)<'' @ number_to_string J (p95 s), ''p(99)<'' @ number_to_string J (p99 s)]),
      (''http_req_failed'', [''rate<'' @ number_to_string J (errorRate s)]),
      (''checks'', [''rate>0.95''])]"

definition generateScenarioThresholds :: "js_engine \<Rightarrow> slo \<Rightarrow> string \<Rightarrow> thresholds" where
  "generateScenarioThresholds J s testType =
     [(''http_req_duration{test_type:'' @ testType @ ''}'',
        [''p(95)<'' @ number_to_string J (p95 s), ''p(99)<'' @ number_to_string J (p99 s)]),
      (''http_req_failed{test_type:'' @ testType @ ''}'',
        [''rate<'' @ number_to_string J (errorRate s)])]"

definition products_list :: slo where
  "products_list = \<lparr>p95 = 300, p99 = 800, errorRate = fl (1 / 100)\<rparr>"

text \<open>
  The threshold set as the specification words it: the p95 and p99 bounds on
  \<open>http_req_duration\<close>, the error-rate bound on \<open>http_req_failed\<close>, and nothing else.
\<close>

definition ThresholdSet_spec :: "js_engine \<Rightarrow> slo \<Rightarrow> thresholds" where
  "ThresholdSet_spec J s =
     [(''http_req_duration'',
        [''p(95)<'' @ number_to_string J (p95 s), ''p(99)<'' @ number_to_string J (p99 s)]),
      (''http_req_failed'', [''rate<'' @ number_to_string J (errorRate s)])]"

text \<open>A metric name scoped by the tag expression \<open>{test_type:t}\<close>.\<close>

definition tagged :: "string \<Rightarrow> string \<times> string list \<Rightarrow> string \<times> string list" where
  "tagged t kb = (fst kb @ ''{test_type:'' @ t @ ''}'', snd kb)"

definition DEFAULT_SLO_read :: slo where
  "DEFAULT_SLO_read = \<lparr>p95 = 500, p99 = 1000, errorRate = fl (1 / 100)\<rparr>"

definition DEFAULT_SLO_write :: slo where
  "DEFAULT_SLO_write = \<lparr>p95 = 1000, p99 = 2500, errorRate = fl (2 / 100)\<rparr>"

definition DEFAULT_SLO_critical :: slo where
  "DEFAULT_SLO_critical = \<lparr>p95 = 200, p99 = 500, errorRate = fl (5 / 1000)\<rparr>"

section \<open>The k6 runtime and the state of a virtual user\<close>

text \<open>
  An HTTP call, the clock and the random source are answered by the world outside the
  script: a state \<open>'w\<close> that only the platform functions read and advance. A response
  carries its status, its body text (or \<open>null\<close>) and what \<open>res.json()\<close> gives:
  the parsed value, or \<open>None\<close> when parsing throws.
\<close>

record request =
  http_method :: string
  url :: string
  payload :: "jsval option"
  params :: "(string \<times> jsval) list"

record response =
  status :: int
  body :: "string option"
  json :: "jsval option"

record 'w k6 =
  engine :: js_engine
  ENV :: env_vars
  http_request :: "request \<Rightarrow> 'w \<Rightarrow> response \<times> 'w"
  Date_now :: "'w \<Rightarrow> int"
  Date_toISOString :: "'w \<Rightarrow> string"
  Math_random :: "'w \<Rightarrow> jsnum \<times> 'w"
  sleep_until :: "jsnum \<Rightarrow> 'w \<Rightarrow> 'w"

text \<open>
  What one virtual user leaves behind: console lines, the result of every check, every
  metric sample in the order it was added, the requests sent with their responses, the
  pauses taken, and a trace kept by the model, to say which CRUD step functions an
  iteration invoked: \<open>Enter\<close> when a step function is entered, \<open>Return\<close> with the
  success it reports when it returns.
\<close>

datatype console_line = Log string | Error string

datatype step = CREATE | READ | UPDATE | DELETE | VERIFY

datatype event = Enter step | Return step bool

record 'w vu =
  world :: 'w
  console :: "console_line list"
  checks :: "(string \<times> bool) list"
  metrics :: "(string \<times> jsnum) list"
  sent :: "(request \<times> response) list"
  slept :: "jsnum list"
  trace :: "event list"

definition console_log :: "string \<Rightarrow> 'w vu \<Rightarrow> 'w vu" where
  "console_log m s = s\<lparr>console := console s @ [Log m]\<rparr>"

definition console_error :: "string \<Rightarrow> 'w vu \<Rightarrow> 'w vu" where
  "console_error m s = s\<lparr>console := console s @ [Error m]\<rparr>"

text \<open>\<open>metric.add(v)\<close> for a Counter, Trend or Rate named \<open>m\<close>.\<close>

definition metric_add :: "string \<Rightarrow> jsnum \<Rightarrow> 'w vu \<Rightarrow> 'w vu" where
  "metric_add m v s = s\<lparr>metrics := metrics s @ [(m, v)]\<rparr>"

definition rate_add :: "string \<Rightarrow> bool \<Rightarrow> 'w vu \<Rightarrow> 'w vu" where
  "rate_add m b s = metric_add m (if b then 1 else 0) s"

definition samples :: "string \<Rightarrow> 'w vu \<Rightarrow> jsnum list" where
  "samples m s = map snd (filter (\<lambda>x. fst x = m) (metrics s))"

definition sleep :: "'w k6 \<Rightarrow> jsnum \<Rightarrow> 'w vu \<Rightarrow> 'w vu" where
  "sleep K t s = s\<lparr>world := sleep_until K t (world s), slept := slept s @ [t]\<rparr>"

definition enter :: "step \<Rightarrow> 'w vu \<Rightarrow> 'w vu" where
  "enter st s = s\<lparr>trace := trace s @ [Enter st]\<rparr>"

definition leave :: "step \<Rightarrow> bool \<Rightarrow> 'w vu \<Rightarrow> 'w vu" where
  "leave st ok s = s\<lparr>trace := trace s @ [Return st ok]\<rparr>"

text \<open>
  k6's \<open>check(val, sets)\<close>: the predicates run in the order of the keys; each result is
  recorded by its truthiness; the call returns whether all passed. A predicate that
  throws (\<open>None\<close>) is recorded as failed and its exception leaves \<open>check\<close> at once.
\<close>

fun check_from :: "bool \<Rightarrow> (string \<times> bool option) list \<Rightarrow> 'w vu \<Rightarrow> bool option \<times> 'w vu" where
  "check_from succ [] s = (Some succ, s)"
| "check_from succ ((name, None) # rest) s = (None, s\<lparr>checks := checks s @ [(name, False)]\<rparr>)"
| "check_from succ ((name, Some v) # rest) s =
     check_from (succ \<and> v) rest (s\<lparr>checks := checks s @ [(name, v)]\<rparr>)"

definition check :: "(string \<times> bool option) list \<Rightarrow> 'w vu \<Rightarrow> bool option \<times> 'w vu" where
  "check sets s = check_from True sets s"

text \<open>
  Assigning \<open>obj[k] = v\<close>: an existing key keeps its place; a new key that is an
  array index (a canonical decimal below \<open>2^32 - 1\<close>) goes among the index keys, which
  come first in ascending order; any other new key goes last. \<open>{...a, ...}\<close> copies the
  own enumerable properties of \<open>a\<close>.
\<close>

definition index_key :: "string \<Rightarrow> nat option" where
  "index_key k =
     (let n = foldl (\<lambda>acc c. 10 * acc + (of_char c - (48 :: nat))) 0 k
      in if k \<noteq> [] \<and> (\<forall>c \<in> set k. c \<in> set ''0123456789'')
            \<and> (k = ''0'' \<or> hd k \<noteq> CHR ''0'') \<and> n < 4294967295
         then Some n else None)"

fun insert_index :: "nat \<Rightarrow> string \<Rightarrow> 'a \<Rightarrow> (string \<times> 'a) list \<Rightarrow> (string \<times> 'a) list" where
  "insert_index n k v [] = [(k, v)]"
| "insert_index n k v (p # ps) =
     (case index_key (fst p) of
        None \<Rightarrow> (k, v) # p # ps
      | Some m \<Rightarrow> if m < n then p # insert_index n k v ps else (k, v) # p # ps)"

definition obj_set :: "string \<Rightarrow> 'a \<Rightarrow> (string \<times> 'a) list \<Rightarrow> (string \<times> 'a) list" where
  "obj_set k v kvs =
     (if k \<in> set (map fst kvs) then map (\<lambda>p. if fst p = k then (k, v) else p) kvs
      else case index_key k of None \<Rightarrow> kvs @ [(k, v)] | Some n \<Rightarrow> insert_index n k v kvs)"

definition obj_assign :: "(string \<times> 'a) list \<Rightarrow> (string \<times> 'a) list \<Rightarrow> (string \<times> 'a) list" where
  "obj_assign base extra = fold (\<lambda>kv acc. obj_set (fst kv) (snd kv) acc) extra base"

fun own_entries :: "jsval \<Rightarrow> (string \<times> jsval) list" where
  "own_entries (JObj kvs) = kvs"
| "own_entries (JArr xs) = map (\<lambda>i. (show_nat i, xs ! i)) [0..<length xs]"
| "own_entries (JStr s) = map (\<lambda>i. (show_nat i, JStr [s ! i])) [0..<length s]"
| "own_entries _ = []"

subsection \<open>Equality\<close>

text \<open>
  \<open>===\<close> and \<open>==\<close>. Objects and arrays are equal only to themselves; the operands
  compared in this program come from different responses, so two of them are never the
  same object.
\<close>

fun strict_eq :: "jsval \<Rightarrow> jsval \<Rightarrow> bool" where
  "strict_eq JUndef JUndef = True"
| "strict_eq JNull JNull = True"
| "strict_eq (JBool a) (JBool b) = (a = b)"
| "strict_eq (JNum a) (JNum b) = (a = b)"
| "strict_eq (JStr a) (JStr b) = (a = b)"
| "strict_eq (JFun a) (JFun b) = (a = b)"
| "strict_eq _ _ = False"

fun nullish :: "jsval \<Rightarrow> bool" where
  "nullish JUndef = True"
| "nullish JNull = True"
| "nullish _ = False"

fun is_object :: "jsval \<Rightarrow> bool" where
  "is_object (JArr _) = True"
| "is_object (JObj _) = True"
| "is_object (JFun _) = True"
| "is_object _ = False"

definition loose_eq :: "js_engine \<Rightarrow> jsval \<Rightarrow> jsval \<Rightarrow> bool option" where
  "loose_eq J a b =
     (if typeof a = typeof b \<and> \<not> is_object a \<and> \<not> is_object b \<and> a \<noteq> JNull \<and> b \<noteq> JNull
        then Some (strict_eq a b)
      else if nullish a \<or> nullish b then Some (nullish a \<and> nullish b)
      else if is_object a \<and> is_object b then Some (strict_eq a b)
      else loose_eq_coerce J a b)"

text \<open>\<open>x > n\<close> and \<open>x <= n\<close> against a number.\<close>

definition js_greater :: "js_engine \<Rightarrow> jsval \<Rightarrow> jsnum \<Rightarrow> bool option" where
  "js_greater J x n = (case x of JNum a \<Rightarrow> Some (n < a) | _ \<Rightarrow> greater_coerce J x (JNum n))"

definition js_less_eq :: "js_engine \<Rightarrow> jsval \<Rightarrow> jsnum \<Rightarrow> bool option" where
  "js_less_eq J x n = (case x of JNum a \<Rightarrow> Some (a \<le> n) | _ \<Rightarrow> less_eq_coerce J x (JNum n))"

section \<open>helpers/common.js\<close>

definition getUrl :: "js_engine \<Rightarrow> env_vars \<Rightarrow> string \<Rightarrow> string option" where
  "getUrl J E path =
     (case js_to_string J (CURRENT_HOST J E) of None \<Rightarrow> None | Some h \<Rightarrow> Some (h @ path))"

text \<open>\<open>TOKENS[role]\<close>: the configured token, what the prototype chain holds, or \<open>undefined\<close>.\<close>

definition token_of :: "js_engine \<Rightarrow> env_vars \<Rightarrow> string \<Rightarrow> jsval" where
  "token_of J E role =
     (case table_get J (TOKENS E) role of Own t \<Rightarrow> JStr t | Inherited v \<Rightarrow> v | Absent \<Rightarrow> JUndef)"

definition getHeaders :: "js_engine \<Rightarrow> env_vars \<Rightarrow> string \<Rightarrow> (string \<times> string) list option" where
  "getHeaders J E role =
     (case js_to_string J (token_of J E role) of
        None \<Rightarrow> None
      | Some t \<Rightarrow>
          Some [(''Accept'', ''application/json''),
                (''Content-Type'', ''application/json''),
                (''Authorization'', ''Bearer '' @ t)])"

definition logError :: "string \<Rightarrow> string \<Rightarrow> 'w vu \<Rightarrow> 'w vu" where
  "logError context message s = console_error (''ERROR ['' @ context @ '']: '' @ message) s"

definition logRequestError :: "js_engine \<Rightarrow> string \<Rightarrow> response \<Rightarrow> 'w vu \<Rightarrow> 'w vu" where
  "logRequestError J context res s =
     logError context
       (''Request failed with status '' @ number_to_string J (of_int (status res)) @ '': ''
          @ (case body res of
               None \<Rightarrow> ''No body''
             | Some b \<Rightarrow> if take 200 b = [] then ''No body'' else take 200 b)) s"

definition chars :: string where
  "chars = ''abcdefghijklmnopqrstuvwxyzABCDEFGHIJKLMNOPQRSTUVWXYZ0123456789''"

definition randomInt :: "'w k6 \<Rightarrow> jsnum \<Rightarrow> jsnum \<Rightarrow> 'w \<Rightarrow> jsnum \<times> 'w" where
  "randomInt K lo hi w =
     (case Math_random K w of
        (r, w') \<Rightarrow> (js_add (Math_floor (js_mul r (js_add (js_sub hi lo) 1))) lo, w'))"

text \<open>The loop of \<open>randomString\<close>, by the number of characters still to draw.\<close>

fun randomString_loop :: "'w k6 \<Rightarrow> nat \<Rightarrow> string \<Rightarrow> 'w \<Rightarrow> string \<times> 'w" where
  "randomString_loop K 0 result w = (result, w)"
| "randomString_loop K (Suc n) result w =
     (case Math_random K w of
        (r, w') \<Rightarrow>
          let i = nat \<lfloor>js_mul r (of_nat (length chars))\<rfloor>
          in randomString_loop K n (result @ (if i < length chars then [chars ! i] else [])) w')"

definition randomString :: "'w k6 \<Rightarrow> nat \<Rightarrow> 'w \<Rightarrow> string \<times> 'w" where
  "randomString K n w = randomString_loop K n [] w"

text \<open>\<open>overrides.k || fallback\<close>, where the fallback draws from the random source.\<close>

definition or_else :: "jsval \<Rightarrow> ('w \<Rightarrow> jsval \<times> 'w) \<Rightarrow> 'w \<Rightarrow> jsval \<times> 'w" where
  "or_else v fallback w = (if truthy v then (v, w) else fallback w)"

definition createProductPayload :: "'w k6 \<Rightarrow> (string \<times> jsval) list \<Rightarrow> 'w \<Rightarrow> jsval \<times> 'w" where
  "createProductPayload K overrides w =
     (let J = engine K; ov = JObj overrides
      in case or_else (js_get_opt J ov ''name'')
                (\<lambda>w. case randomString K 5 w of (r, w') \<Rightarrow> (JStr (''Product '' @ r), w')) w of
           (name, w1) \<Rightarrow>
         case or_else (js_get_opt J ov ''price'')
                (\<lambda>w. case randomInt K 10 1000 w of (n, w') \<Rightarrow> (JNum n, w')) w1 of
           (price, w2) \<Rightarrow>
         case or_else (js_get_opt J ov ''stock'')
                (\<lambda>w. case randomInt K 0 100 w of (n, w') \<Rightarrow> (JNum n, w')) w2 of
           (stock, w3) \<Rightarrow>
         case or_else (js_get_opt J ov ''category'') (\<lambda>w. (JStr ''general'', w)) w3 of
           (category, w4) \<Rightarrow>
         (JObj (obj_assign
                  [(''name'', name), (''price'', price), (''stock'', stock),
                   (''category'', category)] overrides), w4))"

definition sleepWithJitter :: "'w k6 \<Rightarrow> jsnum \<Rightarrow> jsnum \<Rightarrow> 'w \<Rightarrow> jsnum \<times> 'w" where
  "sleepWithJitter K baseMs jitterMs w =
     (case (if 0 < jitterMs then randomInt K 0 jitterMs w else (0, w)) of
        (jitter, w') \<Rightarrow> (js_div (js_add baseMs jitter) 1000, w'))"

definition thinkTime :: "'w k6 \<Rightarrow> 'w \<Rightarrow> jsnum \<times> 'w" where
  "thinkTime K w = sleepWithJitter K 1000 2000 w"

section \<open>utils/http-utils.js\<close>

text \<open>
  The four verb wrappers share their body: build the URL and the headers, send, log a
  status of 400 or more, return the response. \<open>{ headers, ...options }\<close> lets an
  option named \<open>headers\<close> replace the headers.
\<close>

definition headers_value :: "(string \<times> string) list \<Rightarrow> jsval" where
  "headers_value hs = JObj (map (\<lambda>kv. (fst kv, JStr (snd kv))) hs)"

definition send ::
  "'w k6 \<Rightarrow> string \<Rightarrow> string \<Rightarrow> jsval option \<Rightarrow> string \<Rightarrow> string
     \<Rightarrow> (string \<times> jsval) list \<Rightarrow> 'w vu \<Rightarrow> response option \<times> 'w vu" where
  "send K verb path pl role context options s =
     (case getUrl (engine K) (ENV K) path of
        None \<Rightarrow> (None, s)
      | Some u \<Rightarrow>
     (case getHeaders (engine K) (ENV K) role of
        None \<Rightarrow> (None, s)
      | Some headers \<Rightarrow>
          let rq = \<lparr>http_method = verb, url = u, payload = pl,
                     params = obj_assign [(''headers'', headers_value headers)] options\<rparr>
          in case http_request K rq (world s) of
               (res, w') \<Rightarrow>
                 let s1 = s\<lparr>world := w', sent := sent s @ [(rq, res)]\<rparr>
                 in (Some res,
                     if 400 \<le> status res then logRequestError (engine K) context res s1
                     else s1)))"

definition get ::
  "'w k6 \<Rightarrow> string \<Rightarrow> string \<Rightarrow> string \<Rightarrow> (string \<times> jsval) list \<Rightarrow> 'w vu
     \<Rightarrow> response option \<times> 'w vu" where
  "get K path role context options s = send K ''GET'' path None role context options s"

definition post ::
  "'w k6 \<Rightarrow> string \<Rightarrow> jsval \<Rightarrow> string \<Rightarrow> string \<Rightarrow> (string \<times> jsval) list \<Rightarrow> 'w vu
     \<Rightarrow> response option \<times> 'w vu" where
  "post K path pl role context options s =
     send K ''POST'' path (Some pl) role context options s"

definition put ::
  "'w k6 \<Rightarrow> string \<Rightarrow> jsval \<Rightarrow> string \<Rightarrow> string \<Rightarrow> (string \<times> jsval) list \<Rightarrow> 'w vu
     \<Rightarrow> response option \<times> 'w vu" where
  "put K path pl role context options s =
     send K ''PUT'' path (Some pl) role context options s"

definition del ::
  "'w k6 \<Rightarrow> string \<Rightarrow> string \<Rightarrow> string \<Rightarrow> (string \<times> jsval) list \<Rightarrow> 'w vu
     \<Rightarrow> response option \<times> 'w vu" where
  "del K path role context options s = send K ''DELETE'' path None role context options s"

definition safeJson :: "response \<Rightarrow> jsval \<Rightarrow> jsval" where
  "safeJson res defaultValue = (case json res of None \<Rightarrow> defaultValue | Some v \<Rightarrow> v)"

definition extractId :: "js_engine \<Rightarrow> response \<Rightarrow> string \<Rightarrow> jsval" where
  "extractId J res idField =
     (let data = safeJson res JNull
      in if truthy data then js_get_opt J data idField else JNull)"


section \<open>tests/example/crud-operations.js\<close>

definition createDuration :: string where "createDuration = ''crud_create_duration''"
definition readDuration :: string where "readDuration = ''crud_read_duration''"
definition updateDuration :: string where "updateDuration = ''crud_update_duration''"
definition deleteDuration :: string where "deleteDuration = ''crud_delete_duration''"
definition crudSuccessRate :: string where "crudSuccessRate = ''crud_success_rate''"
definition fullFlowSuccess :: string where "fullFlowSuccess = ''crud_full_flow_success''"
definition fullFlowFailed :: string where "fullFlowFailed = ''crud_full_flow_failed''"
definition operationCounts_create :: string where "operationCounts_create = ''crud_create_count''"
definition operationCounts_read :: string where "operationCounts_read = ''crud_read_count''"
definition operationCounts_update :: string where "operationCounts_update = ''crud_update_count''"
definition operationCounts_delete :: string where "operationCounts_delete = ''crud_delete_count''"

text \<open>
  What a step returns. The field \<open>created_id\<close> is the source's \<open>id\<close>. A step that
  throws returns \<open>None\<close>, with the state it had reached.
\<close>

record op_result =
  success :: bool
  data :: jsval

record create_result = op_result +
  created_id :: jsval

definition and_then :: "'a option \<times> 's \<Rightarrow> ('a \<Rightarrow> 's \<Rightarrow> 'b option \<times> 's) \<Rightarrow> 'b option \<times> 's" where
  "and_then r f = (case r of (None, s) \<Rightarrow> (None, s) | (Some a, s) \<Rightarrow> f a s)"

definition is_2xx :: "response \<Rightarrow> bool" where
  "is_2xx r = (200 \<le> status r \<and> status r < 300)"

definition createResource :: "'w k6 \<Rightarrow> 'w vu \<Rightarrow> create_result option \<times> 'w vu" where
  "createResource K s0 =
     (let s = enter CREATE s0; J = engine K
      in case createProductPayload K [] (world s) of
           (pl, w1) \<Rightarrow>
             let s1 = s\<lparr>world := w1\<rparr>; startTime = Date_now K (world s1)
             in and_then (post K ''/products'' pl ''ADMIN'' ''crud-create'' [] s1)
                  (\<lambda>res s2.
                     let duration = Date_now K (world s2) - startTime;
                         s3 = metric_add createDuration (of_int duration) s2;
                         s4 = metric_add operationCounts_create 1 s3;
                         ok = is_2xx res;
                         i = extractId J res ''id'';
                         d = safeJson res JNull
                     in and_then
                          (check
                             [(''CREATE: status 2xx'', Some (is_2xx res)),
                              (''CREATE: has id'', Some (\<not> strict_eq i JNull)),
                              (''CREATE: response time OK'',
                                 Some (of_int duration < p95 DEFAULT_SLO_write))] s4)
                          (\<lambda>_ s5.
                             let s6 = (if \<not> ok
                                       then logError ''crud-create''
                                              (''Failed with status ''
                                                 @ number_to_string J (of_int (status res))) s5
                                       else s5)
                             in (Some \<lparr>success = ok, data = d, created_id = i\<rparr>,
                                 leave CREATE ok (rate_add crudSuccessRate ok s6)))))"

definition readResource :: "'w k6 \<Rightarrow> jsval \<Rightarrow> 'w vu \<Rightarrow> op_result option \<times> 'w vu" where
  "readResource K i s0 =
     (let s = enter READ s0; J = engine K
      in if \<not> truthy i
         then (Some \<lparr>success = False, data = JNull\<rparr>,
               leave READ False (logError ''crud-read'' ''No ID provided'' s))
         else
           let startTime = Date_now K (world s)
           in case js_to_string J i of
                None \<Rightarrow> (None, s)
              | Some ids \<Rightarrow>
                  and_then (get K (''/products/'' @ ids) ''USER'' ''crud-read'' [] s)
                    (\<lambda>res s2.
                       let duration = Date_now K (world s2) - startTime;
                           s3 = metric_add readDuration (of_int duration) s2;
                           s4 = metric_add operationCounts_read 1 s3;
                           ok = (status res = 200);
                           d = safeJson res JNull
                       in and_then
                            (check
                               [(''READ: status 200'', Some (status res = 200)),
                                (''READ: has correct id'', loose_eq J (js_get_opt J d ''id'') i),
                                (''READ: response time OK'',
                                   Some (of_int duration < p95 DEFAULT_SLO_read))] s4)
                            (\<lambda>_ s5.
                               let s6 = (if \<not> ok
                                         then logError ''crud-read''
                                                (''Failed with status ''
                                                   @ number_to_string J (of_int (status res))
                                                   @ '' for ID '' @ ids) s5
                                         else s5)
                               in (Some \<lparr>success = ok, data = d\<rparr>,
                                   leave READ ok (rate_add crudSuccessRate ok s6)))))"

text \<open>
  The payload of an update: the original data spread, then \<open>name\<close>, \<open>price\<close> and
  \<open>updatedAt\<close> set, in this order of evaluation.
\<close>

definition updatePayload_of ::
  "'w k6 \<Rightarrow> jsval \<Rightarrow> 'w \<Rightarrow> ((string \<times> jsval) list \<times> string) \<times> 'w" where
  "updatePayload_of K originalData w =
     (case randomString K 5 w of
        (r, w1) \<Rightarrow>
          (case randomInt K 10 500 w1 of
             (n, w2) \<Rightarrow>
               ((obj_set ''updatedAt'' (JStr (Date_toISOString K w2))
                   (obj_set ''price'' (JNum n)
                      (obj_set ''name'' (JStr (''Updated '' @ r)) (own_entries originalData))),
                 ''Updated '' @ r), w2)))"

definition updateResource ::
  "'w k6 \<Rightarrow> jsval \<Rightarrow> jsval \<Rightarrow> 'w vu \<Rightarrow> op_result option \<times> 'w vu" where
  "updateResource K i originalData s0 =
     (let s = enter UPDATE s0; J = engine K
      in if \<not> truthy i
         then (Some \<lparr>success = False, data = JNull\<rparr>,
               leave UPDATE False (logError ''crud-update'' ''No ID provided'' s))
         else
           case updatePayload_of K originalData (world s) of
             ((updatePayload, newName), w1) \<Rightarrow>
               let s1 = s\<lparr>world := w1\<rparr>; startTime = Date_now K (world s1)
               in case js_to_string J i of
                    None \<Rightarrow> (None, s1)
                  | Some ids \<Rightarrow>
                      and_then
                        (put K (''/products/'' @ ids) (JObj updatePayload) ''ADMIN''
                           ''crud-update'' [] s1)
                        (\<lambda>res s2.
                           let duration = Date_now K (world s2) - startTime;
                               s3 = metric_add updateDuration (of_int duration) s2;
                               s4 = metric_add operationCounts_update 1 s3;
                               ok = is_2xx res;
                               d = safeJson res JNull
                           in and_then
                                (check
                                   [(''UPDATE: status 2xx'', Some (is_2xx res)),
                                    (''UPDATE: response time OK'',
                                       Some (of_int duration < p95 DEFAULT_SLO_write))] s4)
                                (\<lambda>_ s5.
                                   and_then
                                     (if ok \<and> truthy d
                                      then check
                                             [(''UPDATE: name changed'',
                                               Some (strict_eq (js_get_opt J d ''name'')
                                                       (JStr newName)
                                                     \<or> \<not> strict_eq (js_get_opt J d ''name'')
                                                           (js_get_opt J originalData ''name'')))]
                                             s5
                                      else (Some True, s5))
                                     (\<lambda>_ s6.
                                        let s7 = (if \<not> ok
                                                  then logError ''crud-update''
                                                         (''Failed with status ''
                                                            @ number_to_string J
                                                                (of_int (status res))
                                                            @ '' for ID '' @ ids) s6
                                                  else s6)
                                        in (Some \<lparr>success = ok, data = d\<rparr>,
                                            leave UPDATE ok
                                              (rate_add crudSuccessRate ok s7))))))"

definition deleteResource :: "'w k6 \<Rightarrow> jsval \<Rightarrow> 'w vu \<Rightarrow> bool option \<times> 'w vu" where
  "deleteResource K i s0 =
     (let s = enter DELETE s0; J = engine K
      in if \<not> truthy i
         then (Some False, leave DELETE False (logError ''crud-delete'' ''No ID provided'' s))
         else
           let startTime = Date_now K (world s)
           in case js_to_string J i of
                None \<Rightarrow> (None, s)
              | Some ids \<Rightarrow>
                  and_then (del K (''/products/'' @ ids) ''ADMIN'' ''crud-delete'' [] s)
                    (\<lambda>res s2.
                       let duration = Date_now K (world s2) - startTime;
                           s3 = metric_add deleteDuration (of_int duration) s2;
                           s4 = metric_add operationCounts_delete 1 s3;
                           ok = is_2xx res
                       in and_then
                            (check
                               [(''DELETE: status 2xx'', Some (is_2xx res)),
                                (''DELETE: response time OK'',
                                   Some (of_int duration < p95 DEFAULT_SLO_write))] s4)
                            (\<lambda>_ s5.
                               let s6 = (if \<not> ok
                                         then logError ''crud-delete''
                                                (''Failed with status ''
                                                   @ number_to_string J (of_int (status res))
                                                   @ '' for ID '' @ ids) s5
                                         else s5)
                               in (Some ok, leave DELETE ok (rate_add crudSuccessRate ok s6)))))"

definition verifyDeleted :: "'w k6 \<Rightarrow> jsval \<Rightarrow> 'w vu \<Rightarrow> bool option \<times> 'w vu" where
  "verifyDeleted K i s0 =
     (let s = enter VERIFY s0
      in case js_to_string (engine K) i of
           None \<Rightarrow> (None, s)
         | Some ids \<Rightarrow>
             and_then (get K (''/products/'' @ ids) ''USER'' ''crud-verify-deleted'' [] s)
               (\<lambda>res s1.
                  let isDeleted = (status res = 404)
                  in and_then
                       (check [(''VERIFY: resource is deleted (404)'', Some (status res = 404))]
                          s1)
                       (\<lambda>_ s2. (Some isDeleted, leave VERIFY isDeleted s2))))"

text \<open>\<open>a || b\<close> on values.\<close>

definition js_or :: "jsval \<Rightarrow> jsval \<Rightarrow> jsval" where
  "js_or a b = (if truthy a then a else b)"

text \<open>
  The default function: one iteration of the CRUD flow. It returns nothing; \<open>None\<close>
  is an exception leaving the iteration.
\<close>

definition default_fn :: "'w k6 \<Rightarrow> 'w vu \<Rightarrow> unit option \<times> 'w vu" where
  "default_fn K s0 =
     and_then (createResource K (console_log ''Step 1: CREATE'' s0))
       (\<lambda>createResult s1.
          if \<not> success createResult
          then (Some (), sleep K 1 (metric_add fullFlowFailed 1 s1))
          else
            let createdId = created_id createResult;
                resourceData = data createResult;
                flowSuccess = True
            in and_then
                 (readResource K createdId (console_log ''Step 2: READ'' (sleep K (1 / 2) s1)))
                 (\<lambda>readResult s2.
                    let flowSuccess = (if \<not> success readResult then False else flowSuccess);
                        resourceData = js_or (data readResult) resourceData
                    in and_then
                         (updateResource K createdId resourceData
                            (console_log ''Step 3: UPDATE'' (sleep K (1 / 2) s2)))
                         (\<lambda>updateResult s3.
                            let flowSuccess =
                                  (if \<not> success updateResult then False else flowSuccess)
                            in and_then
                                 (readResource K createdId
                                    (console_log ''Step 4: READ (verify update)''
                                       (sleep K (1 / 2) s3)))
                                 (\<lambda>verifyUpdateResult s4.
                                    let flowSuccess =
                                          (if \<not> success verifyUpdateResult then False
                                           else flowSuccess)
                                    in and_then
                                         (deleteResource K createdId
                                            (console_log ''Step 5: DELETE'' (sleep K (1 / 2) s4)))
                                         (\<lambda>deleteResult s5.
                                            let flowSuccess =
                                                  (if \<not> deleteResult then False
                                                   else flowSuccess)
                                            in and_then
                                                 (verifyDeleted K createdId
                                                    (console_log ''Step 6: VERIFY DELETED''
                                                       (sleep K (1 / 2) s5)))
                                                 (\<lambda>isDeleted s6.
     and_then
       (if \<not> isDeleted
        then (case js_to_string (engine K) createdId of
                None \<Rightarrow> (None, s6)
              | Some ids \<Rightarrow>
                  (Some False,
                   logError ''crud-flow'' (''Resource '' @ ids @ '' still exists after delete'')
                     s6))
        else (Some flowSuccess, s6))
       (\<lambda>flowSuccess s7.
          let s8 = (if flowSuccess then metric_add fullFlowSuccess 1 s7
                    else metric_add fullFlowFailed 1 s7)
          in and_then (check [(''CRUD flow completed successfully'', Some flowSuccess)] s8)
               (\<lambda>_ s9.
                  case thinkTime K (world s9) of
                    (t, w) \<Rightarrow> (Some (), sleep K t (s9\<lparr>world := w\<rparr>))))))))))"


subsection \<open>The iteration from each step on\<close>

text \<open>
  The rest of \<open>default_fn\<close> after each step, named so that each step can be reasoned
  about on its own. \<open>flowSuccess\<close> is the value the variable holds when the rest starts.
\<close>

definition flow_end :: "'w k6 \<Rightarrow> jsval \<Rightarrow> bool \<Rightarrow> bool \<Rightarrow> 'w vu \<Rightarrow> unit option \<times> 'w vu" where
  "flow_end K createdId flowSuccess isDeleted s6 =
     and_then
       (if \<not> isDeleted
        then (case js_to_string (engine K) createdId of
                None \<Rightarrow> (None, s6)
              | Some ids \<Rightarrow>
                  (Some False,
                   logError ''crud-flow'' (''Resource '' @ ids @ '' still exists after delete'')
                     s6))
        else (Some flowSuccess, s6))
       (\<lambda>flowSuccess s7.
          let s8 = (if flowSuccess then metric_add fullFlowSuccess 1 s7
                    else metric_add fullFlowFailed 1 s7)
          in and_then (check [(''CRUD flow completed successfully'', Some flowSuccess)] s8)
               (\<lambda>_ s9.
                  case thinkTime K (world s9) of
                    (t, w) \<Rightarrow> (Some (), sleep K t (s9\<lparr>world := w\<rparr>))))"

definition from_verify :: "'w k6 \<Rightarrow> jsval \<Rightarrow> bool \<Rightarrow> 'w vu \<Rightarrow> unit option \<times> 'w vu" where
  "from_verify K createdId flowSuccess s5 =
     and_then
       (verifyDeleted K createdId (console_log ''Step 6: VERIFY DELETED'' (sleep K (1 / 2) s5)))
       (\<lambda>isDeleted s6. flow_end K createdId flowSuccess isDeleted s6)"

definition from_delete :: "'w k6 \<Rightarrow> jsval \<Rightarrow> bool \<Rightarrow> 'w vu \<Rightarrow> unit option \<times> 'w vu" where
  "from_delete K createdId flowSuccess s4 =
     and_then (deleteResource K createdId (console_log ''Step 5: DELETE'' (sleep K (1 / 2) s4)))
       (\<lambda>deleteResult s5.
          from_verify K createdId (if \<not> deleteResult then False else flowSuccess) s5)"

definition from_second_read :: "'w k6 \<Rightarrow> jsval \<Rightarrow> bool \<Rightarrow> 'w vu \<Rightarrow> unit option \<times> 'w vu" where
  "from_second_read K createdId flowSuccess s3 =
     and_then
       (readResource K createdId
          (console_log ''Step 4: READ (verify update)'' (sleep K (1 / 2) s3)))
       (\<lambda>verifyUpdateResult s4.
          from_delete K createdId
            (if \<not> success verifyUpdateResult then False else flowSuccess) s4)"

definition from_update ::
  "'w k6 \<Rightarrow> jsval \<Rightarrow> jsval \<Rightarrow> bool \<Rightarrow> 'w vu \<Rightarrow> unit option \<times> 'w vu" where
  "from_update K createdId resourceData flowSuccess s2 =
     and_then
       (updateResource K createdId resourceData
          (console_log ''Step 3: UPDATE'' (sleep K (1 / 2) s2)))
       (\<lambda>updateResult s3.
          from_second_read K createdId
            (if \<not> success updateResult then False else flowSuccess) s3)"

definition from_read :: "'w k6 \<Rightarrow> jsval \<Rightarrow> jsval \<Rightarrow> 'w vu \<Rightarrow> unit option \<times> 'w vu" where
  "from_read K createdId resourceData s1 =
     and_then (readResource K createdId (console_log ''Step 2: READ'' (sleep K (1 / 2) s1)))
       (\<lambda>readResult s2.
          from_update K createdId (js_or (data readResult) resourceData)
            (if \<not> success readResult then False else True) s2)"

subsection \<open>What an iteration records\<close>

text \<open>
  The flow is recorded as successful, or as failed, when the one counter gets exactly one
  sample of 1 and the other none; it is not recorded when neither gets a sample.
\<close>

definition recorded :: "bool \<Rightarrow> 'w vu \<Rightarrow> 'w vu \<Rightarrow> bool" where
  "recorded ok s s' =
     (samples fullFlowSuccess s' = samples fullFlowSuccess s @ (if ok then [1] else [])
      \<and> samples fullFlowFailed s' = samples fullFlowFailed s @ (if ok then [] else [1]))"

definition unrecorded :: "'w vu \<Rightarrow> 'w vu \<Rightarrow> bool" where
  "unrecorded s s' =
     (samples fullFlowSuccess s' = samples fullFlowSuccess s
      \<and> samples fullFlowFailed s' = samples fullFlowFailed s)"

text \<open>
  The trace of steps \<open>sts\<close> whose outcomes are \<open>os\<close>: a step that throws (\<open>None\<close>)
  ends the trace; a CREATE that reports failure ends it too; every other step is
  followed by the next one.
\<close>

fun flow_trace :: "step list \<Rightarrow> bool option list \<Rightarrow> event list" where
  "flow_trace (st # sts) (None # os) = [Enter st]"
| "flow_trace (st # sts) (Some b # os) =
     Enter st # Return st b # (if st = CREATE \<and> \<not> b then [] else flow_trace sts os)"
| "flow_trace _ _ = []"

text \<open>
  No step throws on the identifier \<open>i\<close>: the host and the identifier can be turned
  into strings, and \<open>==\<close> against the identifier does not throw.
\<close>

definition nothrow :: "'w k6 \<Rightarrow> jsval \<Rightarrow> bool" where
  "nothrow K i =
     (js_to_string (engine K) (CURRENT_HOST (engine K) (ENV K)) \<noteq> None
      \<and> js_to_string (engine K) i \<noteq> None
      \<and> (\<forall>a. loose_eq (engine K) a i \<noteq> None))"

text \<open>
  What the steps \<open>sts\<close>, run from state \<open>s\<close> with \<open>flowSuccess = fs\<close> on the
  identifier \<open>i\<close>, leave in the result \<open>res\<close>.
\<close>

definition stage_facts ::
  "'w k6 \<Rightarrow> jsval \<Rightarrow> bool \<Rightarrow> step list \<Rightarrow> 'w vu \<Rightarrow> unit option \<times> 'w vu
     \<Rightarrow> bool option list \<Rightarrow> (request \<times> response) list \<Rightarrow> bool" where
  "stage_facts K i fs sts s res os xs =
     (length os = length sts
      \<and> trace (snd res) = trace s @ flow_trace sts os
      \<and> sent (snd res) = sent s @ xs
      \<and> (fst res = Some () \<longleftrightarrow> (\<forall>x \<in> set os. x \<noteq> None))
      \<and> (fst res = Some () \<longrightarrow> recorded (fs \<and> (\<forall>x \<in> set os. x = Some True)) s (snd res))
      \<and> (fst res = None \<longrightarrow> unrecorded s (snd res))
      \<and> (nothrow K i \<longrightarrow> fst res = Some ())
      \<and> (\<forall>b. fst res = Some () \<longrightarrow> last os = Some b \<longrightarrow>
             xs \<noteq> [] \<and> (b \<longleftrightarrow> status (snd (last xs)) = 404)))"

definition stage_spec ::
  "'w k6 \<Rightarrow> jsval \<Rightarrow> bool \<Rightarrow> step list \<Rightarrow> 'w vu \<Rightarrow> unit option \<times> 'w vu \<Rightarrow> bool" where
  "stage_spec K i fs sts s res = (\<exists>os xs. stage_facts K i fs sts s res os xs)"

section \<open>URL building with query parameters\<close>

text \<open>
  \<open>encodeURIComponent\<close>: the unreserved characters stay, every other character is
  replaced by \<open>%\<close> and its two upper-case hexadecimal digits. A string holds text
  outside ASCII as its UTF-8 bytes, which is what gets escaped.
\<close>

definition unreserved :: string where
  "unreserved =
     ''ABCDEFGHIJKLMNOPQRSTUVWXYZabcdefghijklmnopqrstuvwxyz0123456789-_.!~*'' @ [CHR 0x27]
       @ ''()''"

definition hex_digit :: "nat \<Rightarrow> char" where
  "hex_digit n = ''0123456789ABCDEF'' ! (n mod 16)"

definition escape_char :: "char \<Rightarrow> string" where
  "escape_char c =
     (if c \<in> set unreserved then [c]
      else [CHR ''%'', hex_digit (of_char c div 16), hex_digit (of_char c)])"

definition encodeURIComponent :: "string \<Rightarrow> string" where
  "encodeURIComponent x = concat (map escape_char x)"

text \<open>\<open>xs.join(sep)\<close> on strings.\<close>

fun join :: "string \<Rightarrow> string list \<Rightarrow> string" where
  "join sep [] = []"
| "join sep [x] = x"
| "join sep (x # y # ys) = x @ sep @ join sep (y # ys)"

text \<open>
  The query string of a parameter object, given by its entries in enumeration order:
  the entries whose value is neither \<open>null\<close> nor \<open>undefined\<close>, each as
  \<open>key=value\<close> with both sides encoded. Turning a value into a string can throw.
\<close>

definition survives :: "string \<times> jsval \<Rightarrow> bool" where
  "survives kv = (\<not> strict_eq (snd kv) JNull \<and> \<not> strict_eq (snd kv) JUndef)"

definition encode_pair :: "js_engine \<Rightarrow> string \<times> jsval \<Rightarrow> string option" where
  "encode_pair J kv =
     (case js_to_string J (snd kv) of
        None \<Rightarrow> None
      | Some v \<Rightarrow> Some (encodeURIComponent (fst kv) @ ''='' @ encodeURIComponent v))"

fun all_some :: "'a option list \<Rightarrow> 'a list option" where
  "all_some [] = Some []"
| "all_some (None # xs) = None"
| "all_some (Some x # xs) = (case all_some xs of None \<Rightarrow> None | Some ys \<Rightarrow> Some (x # ys))"

definition queryString_of :: "js_engine \<Rightarrow> (string \<times> jsval) list \<Rightarrow> string option" where
  "queryString_of J ps =
     (case all_some (map (encode_pair J) (filter survives ps)) of
        None \<Rightarrow> None
      | Some pairs \<Rightarrow> Some (join ''&'' pairs))"

definition getUrlWithParams ::
  "js_engine \<Rightarrow> env_vars \<Rightarrow> string \<Rightarrow> (string \<times> jsval) list \<Rightarrow> string option" where
  "getUrlWithParams J E path ps =
     (case getUrl J E path of
        None \<Rightarrow> None
      | Some u \<Rightarrow>
          (case queryString_of J ps of
             None \<Rightarrow> None
           | Some queryString \<Rightarrow>
               Some (if queryString \<noteq> [] then u @ ''?'' @ queryString else u)))"

definition getWithParams ::
  "'w k6 \<Rightarrow> string \<Rightarrow> (string \<times> jsval) list \<Rightarrow> string \<Rightarrow> string
     \<Rightarrow> (string \<times> jsval) list \<Rightarrow> 'w vu \<Rightarrow> response option \<times> 'w vu" where
  "getWithParams K path ps role context options s =
     (case queryString_of (engine K) ps of
        None \<Rightarrow> (None, s)
      | Some queryString \<Rightarrow>
          let fullPath = (if queryString \<noteq> [] then path @ ''?'' @ queryString else path)
          in get K fullPath role context options s)"

section \<open>utils/checks.js\<close>

text \<open>
  The validators. A predicate handed to \<open>check\<close> is given by its outcome on the value
  checked: whether the value it returns is truthy, or \<open>None\<close> when it throws. What a
  \<open>catch\<close> logs is the message; the exception object printed after it is the
  runtime's.
\<close>

definition checkStatus ::
  "js_engine \<Rightarrow> response \<Rightarrow> int \<Rightarrow> 'w vu \<Rightarrow> bool option \<times> 'w vu" where
  "checkStatus J res expectedStatus s =
     check [(''status is '' @ number_to_string J (of_int expectedStatus),
             Some (status res = expectedStatus))] s"

text \<open>\<open>try { return check(...) } catch (e) { console.error(msg, e); return false }\<close>.\<close>

definition caught :: "string \<Rightarrow> bool option \<times> 'w vu \<Rightarrow> bool \<times> 'w vu" where
  "caught msg r = (case r of (Some b, s) \<Rightarrow> (b, s) | (None, s) \<Rightarrow> (False, console_error msg s))"

definition checkListResponse :: "js_engine \<Rightarrow> response \<Rightarrow> string \<Rightarrow> 'w vu \<Rightarrow> bool \<times> 'w vu" where
  "checkListResponse J res context s =
     caught (''Failed to parse '' @ context @ '' response:'')
       (case json res of
          None \<Rightarrow> (None, s)
        | Some d \<Rightarrow>
            let items = js_get J d ''items''
            in check
                 [(context @ '': has items array'',
                   (case items of
                      None \<Rightarrow> None
                    | Some it \<Rightarrow> Some (\<not> strict_eq it JUndef \<and> isArray it))),
                  (context @ '': items not empty'',
                   (case items of
                      None \<Rightarrow> None
                    | Some it \<Rightarrow>
                        if \<not> truthy it then Some False
                        else (case js_get J it ''length'' of
                                None \<Rightarrow> None
                              | Some n \<Rightarrow> js_greater J n 0))),
                  (context @ '': valid page size'',
                   (case items of
                      None \<Rightarrow> None
                    | Some it \<Rightarrow>
                        if \<not> truthy it then Some False
                        else (case js_get J it ''length'' of
                                None \<Rightarrow> None
                              | Some n \<Rightarrow> js_less_eq J n 100)))] s)"

definition checkItemResponse ::
  "js_engine \<Rightarrow> response \<Rightarrow> string list \<Rightarrow> string \<Rightarrow> 'w vu \<Rightarrow> bool \<times> 'w vu" where
  "checkItemResponse J res requiredFields context s =
     caught (''Failed to parse '' @ context @ '' response:'')
       (case json res of
          None \<Rightarrow> (None, s)
        | Some d \<Rightarrow>
            let checks0 =
                  [(context @ '': response is object'',
                    Some (\<not> strict_eq d JNull \<and> typeof d = ''object'' \<and> \<not> isArray d))];
                checks1 =
                  fold (\<lambda>field acc.
                          obj_set (context @ '': has '' @ field)
                            (case js_get J d field of
                               None \<Rightarrow> None
                             | Some v \<Rightarrow> Some (\<not> strict_eq v JUndef)) acc)
                    requiredFields checks0
            in check checks1 s)"

definition checkFieldTypes ::
  "js_engine \<Rightarrow> response \<Rightarrow> (string \<times> string) list \<Rightarrow> string \<Rightarrow> 'w vu \<Rightarrow> bool \<times> 'w vu" where
  "checkFieldTypes J res fieldTypes context s =
     caught (''Failed to parse '' @ context @ '' response:'')
       (case json res of
          None \<Rightarrow> (None, s)
        | Some d \<Rightarrow>
            let checks1 =
                  fold (\<lambda>ft acc.
                          obj_set (context @ '': '' @ fst ft @ '' is '' @ snd ft)
                            (case js_get J d (fst ft) of
                               None \<Rightarrow> None
                             | Some v \<Rightarrow>
                                 Some (if snd ft = ''array'' then isArray v
                                       else typeof v = snd ft)) acc)
                    fieldTypes []
            in check checks1 s)"

text \<open>
  An item validator is a function of the item: it returns a value or throws. Calling
  something that is no function throws, so such a validator is \<open>\<lambda>_. None\<close>.
\<close>

definition checkListItemStructure ::
  "js_engine \<Rightarrow> response \<Rightarrow> (jsval \<Rightarrow> jsval option) \<Rightarrow> string \<Rightarrow> 'w vu \<Rightarrow> bool \<times> 'w vu" where
  "checkListItemStructure J res itemValidator context s =
     caught (''Failed to validate '' @ context @ '':'')
       (case json res of
          None \<Rightarrow> (None, s)
        | Some d \<Rightarrow>
            (case js_get J d ''items'' of
               None \<Rightarrow> (None, s)
             | Some it \<Rightarrow>
                 (case it of
                    JArr xs \<Rightarrow>
                      if xs = [] then (Some False, s)
                      else check
                             [(context @ '': valid structure'',
                               (case itemValidator (hd xs) of
                                  None \<Rightarrow> None
                                | Some v \<Rightarrow> Some (truthy v)))] s
                  | _ \<Rightarrow> (Some False, s))))"

text \<open>
  \<open>checkGetListEndpoint\<close>: \<open>allPassed = f() && allPassed\<close> runs \<open>f\<close> whatever
  \<open>allPassed\<close> holds. An absent validator (\<open>null\<close>) is \<open>None\<close>.
\<close>

definition checkGetListEndpoint ::
  "js_engine \<Rightarrow> response \<Rightarrow> (jsval \<Rightarrow> jsval option) option \<Rightarrow> string \<Rightarrow> 'w vu
     \<Rightarrow> bool option \<times> 'w vu" where
  "checkGetListEndpoint J res itemValidator context s =
     and_then (checkStatus J res 200 s)
       (\<lambda>r1 s1.
          let allPassed = (r1 \<and> True)
          in if status res = 200
             then (case checkListResponse J res context s1 of
                     (r2, s2) \<Rightarrow>
                       let allPassed = (r2 \<and> allPassed)
                       in (case itemValidator of
                             None \<Rightarrow> (Some allPassed, s2)
                           | Some v \<Rightarrow>
                               (case checkListItemStructure J res v (context @ ''-item'') s2 of
                                  (r3, s3) \<Rightarrow> (Some (r3 \<and> allPassed), s3))))
             else (Some allPassed, s1))"

text \<open>A response that is no JSON, and one whose body is \<open>{"items": []}\<close>.\<close>

definition html_response :: response where
  "html_response = \<lparr>status = 200, body = Some ''<html></html>'', json = None\<rparr>"

definition empty_list_response :: "string option \<Rightarrow> response" where
  "empty_list_response b = \<lparr>status = 200, body = b, json = Some (JObj [(''items'', JArr [])])\<rparr>"


section \<open>A concrete engine and environment\<close>

text \<open>
  An instance of the engine, to run the model on concrete inputs. An object with an own \<open>toString\<close> property cannot
  be turned into a string; an array prints its elements joined by commas. Every
  prototype chain ends in \<open>Object.prototype\<close>, whose members are listed
  (\<open>__proto__\<close> of an object literal is \<open>Object.prototype\<close> itself, an object with
  no enumerable property); arrays, strings, numbers, booleans and functions add none
  here. Comparisons that need a
  coercion answer false.
\<close>

fun frac_digits :: "nat \<Rightarrow> rat \<Rightarrow> string" where
  "frac_digits 0 r = []"
| "frac_digits (Suc k) r =
     (if r = 0 then []
      else (''0123456789'' ! nat \<lfloor>r * 10\<rfloor>) # frac_digits k (r * 10 - of_int \<lfloor>r * 10\<rfloor>))"

definition show_decimal :: "rat \<Rightarrow> string" where
  "show_decimal q =
     (let a = \<bar>q\<bar>; i = \<lfloor>a\<rfloor>; f = a - of_int i
      in (if q < 0 then ''-'' else []) @ show_nat (nat i)
           @ (if f = 0 then [] else CHR ''.'' # frac_digits 40 f))"

text \<open>
  The decimal exponent of a positive rational, and the rational rounded to \<open>d\<close>
  significant decimal digits.
\<close>

fun leading_zeros :: "nat \<Rightarrow> rat \<Rightarrow> nat" where
  "leading_zeros 0 r = 0"
| "leading_zeros (Suc k) r = (if 1 \<le> r then 0 else Suc (leading_zeros k (r * 10)))"

definition decimal_exponent :: "rat \<Rightarrow> int" where
  "decimal_exponent q =
     (if 1 \<le> q then int (length (show_nat (nat \<lfloor>q\<rfloor>))) - 1
      else - int (leading_zeros 30 q))"

definition round_sig :: "nat \<Rightarrow> rat \<Rightarrow> rat" where
  "round_sig d q =
     (let u = power_int 10 (decimal_exponent q - int d + 1)
      in of_int (round_half_even (q / u)) * u)"

text \<open>
  A number prints as the shortest decimal that reads back as the same binary64 value
  (plain notation, as the engine uses from \<open>1e-6\<close> up to \<open>1e21\<close>).
\<close>

fun shortest_decimal :: "nat \<Rightarrow> nat \<Rightarrow> rat \<Rightarrow> rat" where
  "shortest_decimal 0 d q = q"
| "shortest_decimal (Suc k) d q =
     (if fl (round_sig d q) = q then round_sig d q else shortest_decimal k (Suc d) q)"

definition show_num :: "jsnum \<Rightarrow> string" where
  "show_num q =
     (if q = 0 then ''0''
      else (if q < 0 then ''-'' else []) @ show_decimal (shortest_decimal 17 1 \<bar>q\<bar>))"

fun join_commas :: "string option list \<Rightarrow> string option" where
  "join_commas [] = Some []"
| "join_commas [x] = x"
| "join_commas (x # y # ys) =
     (case x of
        None \<Rightarrow> None
      | Some a \<Rightarrow> (case join_commas (y # ys) of None \<Rightarrow> None | Some b \<Rightarrow> Some (a @ '','' @ b)))"

fun sample_to_string :: "jsval \<Rightarrow> string option" where
  "sample_to_string JUndef = Some ''undefined''"
| "sample_to_string JNull = Some ''null''"
| "sample_to_string (JBool b) = Some (if b then ''true'' else ''false'')"
| "sample_to_string (JNum n) = Some (show_num n)"
| "sample_to_string (JStr s) = Some s"
| "sample_to_string (JArr xs) =
     join_commas (map (\<lambda>x. if x = JUndef \<or> x = JNull then Some [] else sample_to_string x) xs)"
| "sample_to_string (JObj kvs) =
     (if ''toString'' \<in> set (map fst kvs) then None else Some ''[object Object]'')"
| "sample_to_string (JFun f) = Some (''function '' @ f @ ''() { [native code] }'')"

definition object_prototype :: "(string \<times> jsval) list" where
  "object_prototype =
     [(''constructor'', JFun ''Object''),
      (''toString'', JFun ''toString''),
      (''toLocaleString'', JFun ''toLocaleString''),
      (''valueOf'', JFun ''valueOf''),
      (''hasOwnProperty'', JFun ''hasOwnProperty''),
      (''isPrototypeOf'', JFun ''isPrototypeOf''),
      (''propertyIsEnumerable'', JFun ''propertyIsEnumerable''),
      (''__proto__'', JObj [])]"

definition sample_engine :: js_engine where
  "sample_engine =
     \<lparr>number_to_string = show_num,
      object_to_string = sample_to_string,
      inherited = (\<lambda>p k. case map_of object_prototype k of None \<Rightarrow> JUndef | Some v \<Rightarrow> v),
      loose_eq_coerce = (\<lambda>a b. Some False),
      greater_coerce = (\<lambda>a b. Some False),
      less_eq_coerce = (\<lambda>a b. Some False)\<rparr>"

definition no_env :: env_vars where
  "no_env =
     \<lparr>ENV_HOST = None, ENV_PROFILE = None, ENV_TOKEN_USER = None, ENV_TOKEN_ADMIN = None,
      ENV_TOKEN_SUPER_USER = None\<rparr>"

text \<open>
  A world for running the model: the responses the server will give, in order, and a
  clock that a request advances by 10 ms and a pause by its length.
\<close>

record sim_world =
  clock :: int
  pending :: "response list"

definition sample_k6 :: "sim_world k6" where
  "sample_k6 =
     \<lparr>engine = sample_engine,
      ENV = no_env,
      http_request =
        (\<lambda>rq w. case pending w of
                    [] \<Rightarrow> (\<lparr>status = 0, body = None, json = None\<rparr>, w\<lparr>clock := clock w + 10\<rparr>)
                  | r # rs \<Rightarrow> (r, w\<lparr>clock := clock w + 10, pending := rs\<rparr>)),
      Date_now = clock,
      Date_toISOString = (\<lambda>w. ''2024-01-01T00:00:00.000Z''),
      Math_random = (\<lambda>w. (1 / 2, w)),
      sleep_until = (\<lambda>t w. w\<lparr>clock := clock w + \<lfloor>t * 1000\<rfloor>\<rparr>)\<rparr>"

definition fresh_vu :: "response list \<Rightarrow> sim_world vu" where
  "fresh_vu rs =
     \<lparr>world = \<lparr>clock = 0, pending = rs\<rparr>, console = [], checks = [], metrics = [], sent = [],
      slept = [], trace = []\<rparr>"

definition json_response :: "int \<Rightarrow> string \<Rightarrow> jsval \<Rightarrow> response" where
  "json_response st txt v = \<lparr>status = st, body = Some txt, json = Some v\<rparr>"

text \<open>Sample runs: what the server answers, and what an iteration leaves to look at.\<close>

definition item :: jsval where
  "item = JObj [(''id'', JNum 7), (''name'', JStr ''x'')]"

definition ok_run :: "response list" where
  "ok_run =
     [json_response 201 ''{}'' item, json_response 200 ''{}'' item,
      json_response 200 ''{}'' item, json_response 200 ''{}'' item,
      \<lparr>status = 204, body = None, json = None\<rparr>,
      \<lparr>status = 404, body = Some ''Not found'', json = None\<rparr>]"

definition stale_run :: "response list" where
  "stale_run =
     [json_response 201 ''{}'' item, json_response 200 ''{}'' item,
      json_response 200 ''{}'' item, json_response 200 ''{}'' item,
      \<lparr>status = 204, body = None, json = None\<rparr>,
      json_response 200 ''{}'' item]"

definition fail_run :: "response list" where
  "fail_run = [\<lparr>status = 500, body = Some ''boom'', json = None\<rparr>]"

definition noid_run :: "response list" where
  "noid_run = [json_response 201 ''{}'' (JObj []), json_response 200 ''{}'' (JObj [])]"

definition observe ::
  "unit option \<times> sim_world vu
     \<Rightarrow> unit option \<times> event list \<times> (string \<times> jsnum) list \<times> int list" where
  "observe r =
     (fst r, trace (snd r), metrics (snd r), map (\<lambda>x. status (snd x)) (sent (snd r)))"

(*THEOREMS*)

section \<open>The weighted scenarios\<close>

lemma split_1:
  "Math_ceil (js_mul 1 (fl (7 / 10))) = 1" "Math_ceil (js_mul 1 (fl (1 / 5))) = 1"
  "Math_ceil (js_mul 1 (fl (1 / 10))) = 1"
  by code_simp+

lemma split_10:
  "Math_ceil (js_mul 10 (fl (7 / 10))) = 7" "Math_ceil (js_mul 10 (fl (1 / 5))) = 2"
  "Math_ceil (js_mul 10 (fl (1 / 10))) = 1"
  by code_simp+

lemma split_30:
  "Math_ceil (js_mul 30 (fl (7 / 10))) = 21" "Math_ceil (js_mul 30 (fl (1 / 5))) = 6"
  "Math_ceil (js_mul 30 (fl (1 / 10))) = 3"
  by code_simp+

lemma split_100:
  "Math_ceil (js_mul 100 (fl (7 / 10))) = 70" "Math_ceil (js_mul 100 (fl (1 / 5))) = 20"
  "Math_ceil (js_mul 100 (fl (1 / 10))) = 10"
  by code_simp+

lemma weighted_total_unfold:
  "weighted_total p =
     Math_ceil (js_mul (vus p) (fl (7 / 10))) + Math_ceil (js_mul (vus p) (fl (1 / 5)))
       + or_one (Math_ceil (js_mul (vus p) (fl (1 / 10))))"
  by (simp add: weighted_total_def scenarios_def vus_of_def)

lemma create_unfold:
  "vus_of (scenarios p) ''create'' = or_one (Math_ceil (js_mul (vus p) (fl (1 / 10))))"
  by (simp add: scenarios_def vus_of_def)

lemma getProfile_valid:
  assumes "getProfile J (E\<lparr>ENV_PROFILE := Some name\<rparr>) = Inr p"
  shows "name = ''SMOKE'' \<Longrightarrow> vus p = 1" "name = ''LIGHT'' \<Longrightarrow> vus p = 10"
    "name = ''MEDIUM'' \<Longrightarrow> vus p = 30" "name = ''HEAVY'' \<Longrightarrow> vus p = 100"
  using assms by (auto simp: getProfile_def env_or_def table_get_def LOAD_PROFILES_def)

lemma getProfile_SMOKE:
  "getProfile sample_engine (no_env\<lparr>ENV_PROFILE := Some ''SMOKE''\<rparr>)
     = Inr \<lparr>vus = 1, duration = ''30s'', description = ''Quick sanity check''\<rparr>"
  by (simp add: getProfile_def env_or_def table_get_def LOAD_PROFILES_def no_env_def)

lemma getProfile_LIGHT:
  "getProfile sample_engine (no_env\<lparr>ENV_PROFILE := Some ''LIGHT''\<rparr>) = Inr DEFAULT_PROFILE"
  by (simp add: getProfile_def env_or_def table_get_def LOAD_PROFILES_def no_env_def
      DEFAULT_PROFILE_def)

text \<open>
  C2, as stated, fails: under the SMOKE profile (1 VU) each of the three scenarios is
  declared with \<open>Math.ceil\<close> of a positive fraction, which is 1, so the three counts
  sum to 3.
\<close>

theorem smoke_allocation_exceeds_vus:
  "getProfile sample_engine (no_env\<lparr>ENV_PROFILE := Some ''SMOKE''\<rparr>)
     = Inr \<lparr>vus = 1, duration = ''30s'', description = ''Quick sanity check''\<rparr>
   \<and> weighted_total \<lparr>vus = 1, duration = ''30s'', description = ''Quick sanity check''\<rparr> = 3
   \<and> \<not> weighted_total \<lparr>vus = 1, duration = ''30s'', description = ''Quick sanity check''\<rparr>
        \<le> vus \<lparr>vus = 1, duration = ''30s'', description = ''Quick sanity check''\<rparr>"
  by (simp add: getProfile_SMOKE weighted_total_unfold split_1 or_one_def)

text \<open>
  C2, amended: for each of the four profile names the create scenario is declared with
  at least 1 VU, and for LIGHT, MEDIUM and HEAVY the three declared VU counts sum to at
  most the profile's \<open>vus\<close>.
\<close>

theorem vu_allocation:
  assumes "name \<in> {''SMOKE'', ''LIGHT'', ''MEDIUM'', ''HEAVY''}"
    and "getProfile J (E\<lparr>ENV_PROFILE := Some name\<rparr>) = Inr p"
  shows "1 \<le> vus_of (scenarios p) ''create''
         \<and> (name \<noteq> ''SMOKE'' \<longrightarrow> weighted_total p \<le> vus p)"
proof -
  from assms(1) consider "name = ''SMOKE''" | "name = ''LIGHT''" | "name = ''MEDIUM''"
    | "name = ''HEAVY''"
    by auto
  then show ?thesis
  proof cases
    case 1
    then have "vus p = 1" using getProfile_valid(1) [OF assms(2)] by simp
    with 1 show ?thesis by (simp add: create_unfold split_1 or_one_def)
  next
    case 2
    then have "vus p = 10" using getProfile_valid(2) [OF assms(2)] by simp
    then show ?thesis by (simp add: weighted_total_unfold create_unfold split_10 or_one_def)
  next
    case 3
    then have "vus p = 30" using getProfile_valid(3) [OF assms(2)] by simp
    then show ?thesis by (simp add: weighted_total_unfold create_unfold split_30 or_one_def)
  next
    case 4
    then have "vus p = 100" using getProfile_valid(4) [OF assms(2)] by simp
    then show ?thesis by (simp add: weighted_total_unfold create_unfold split_100 or_one_def)
  qed
qed

theorem vu_allocation_witness:
  "''LIGHT'' \<in> {''SMOKE'', ''LIGHT'', ''MEDIUM'', ''HEAVY''}
   \<and> getProfile sample_engine (no_env\<lparr>ENV_PROFILE := Some ''LIGHT''\<rparr>) = Inr DEFAULT_PROFILE
   \<and> 1 \<le> vus_of (scenarios DEFAULT_PROFILE) ''create''
   \<and> weighted_total DEFAULT_PROFILE \<le> vus DEFAULT_PROFILE"
proof -
  have m: "''LIGHT'' \<in> {''SMOKE'', ''LIGHT'', ''MEDIUM'', ''HEAVY''}" by simp
  from vu_allocation [OF m getProfile_LIGHT] getProfile_LIGHT m show ?thesis by simp
qed

section \<open>Threshold generators\<close>

lemma show_num_products_list:
  "show_num 300 = ''300''" "show_num 800 = ''800''" "show_num (fl (1 / 100)) = ''0.01''"
  by code_simp+

text \<open>
  C8: for every SLO the threshold set is exactly the p95 and p99 bounds on
  \<open>http_req_duration\<close> and the error-rate bound on \<open>http_req_failed\<close>, as the
  docstring of \<open>generateThresholds\<close> gives it for \<open>ENDPOINT_SLO.products.list\<close>. The
  code does not meet this: at that very input it returns a fourth bound besides,
  \<open>rate>0.95\<close> on \<open>checks\<close>.
\<close>

theorem generateThresholds_has_checks_bound:
  "generateThresholds sample_engine products_list =
     [(''http_req_duration'', [''p(95)<300'', ''p(99)<800'']),
      (''http_req_failed'', [''rate<0.01'']),
      (''checks'', [''rate>0.95''])]
   \<and> ThresholdSet_spec sample_engine products_list =
     [(''http_req_duration'', [''p(95)<300'', ''p(99)<800'']),
      (''http_req_failed'', [''rate<0.01''])]
   \<and> generateThresholds sample_engine products_list
       \<noteq> ThresholdSet_spec sample_engine products_list"
  by (simp add: generateThresholds_def ThresholdSet_spec_def products_list_def
      sample_engine_def show_num_products_list)

text \<open>
  What the two generators return, for every SLO: \<open>generateScenarioThresholds\<close> gives
  the documented threshold set under tagged keys, \<open>generateThresholds\<close> the same set
  followed by the bound on \<open>checks\<close>.
\<close>

lemma thresholds_shape:
  "generateThresholds J s = ThresholdSet_spec J s @ [(''checks'', [''rate>0.95''])]
   \<and> generateScenarioThresholds J s t = map (tagged t) (ThresholdSet_spec J s)"
  by (simp add: generateThresholds_def generateScenarioThresholds_def ThresholdSet_spec_def
      tagged_def)

end
